theory Spec2Isabelle
  imports Main "HOL-Library.Sublist"
begin

section \<open>Python strings\<close>

text \<open>
  The program is Python; its strings are modelled as \<^typ>\<open>string\<close>. The model covers ASCII
  text: \<open>str.upper\<close> and \<open>str.lower\<close> move the 26 letters and leave every other character
  alone, and the whitespace of \<open>str.strip\<close> and \<open>str.split\<close> is the ASCII whitespace of
  \<open>str.isspace\<close> (tab, line feed, vertical tab, form feed, carriage return, the four
  separators \<open>0x1C\<close> to \<open>0x1F\<close>, and the space). A character outside ASCII is carried
  along as a caseless character that is not whitespace.
\<close>

definition upper_char :: "char \<Rightarrow> char" where
  "upper_char c =
     (case map_of (zip ''abcdefghijklmnopqrstuvwxyz'' ''ABCDEFGHIJKLMNOPQRSTUVWXYZ'') c of
        Some u \<Rightarrow> u
      | None \<Rightarrow> c)"

definition lower_char :: "char \<Rightarrow> char" where
  "lower_char c =
     (case map_of (zip ''ABCDEFGHIJKLMNOPQRSTUVWXYZ'' ''abcdefghijklmnopqrstuvwxyz'') c of
        Some l \<Rightarrow> l
      | None \<Rightarrow> c)"

definition is_space :: "char \<Rightarrow> bool" where
  "is_space c \<longleftrightarrow>
     c \<in> set [CHR 0x09, CHR 0x0A, CHR 0x0B, CHR 0x0C, CHR 0x0D,
               CHR 0x1C, CHR 0x1D, CHR 0x1E, CHR 0x1F, CHR 0x20]"

definition py_upper :: "string \<Rightarrow> string" where
  "py_upper s = map upper_char s"

definition py_lower :: "string \<Rightarrow> string" where
  "py_lower s = map lower_char s"

text \<open>\<open>s.strip()\<close>: whitespace is dropped at both ends.\<close>

definition py_strip :: "string \<Rightarrow> string" where
  "py_strip s = rev (dropWhile is_space (rev (dropWhile is_space s)))"

text \<open>\<open>p in s\<close> on strings: \<open>p\<close> occurs in \<open>s\<close> as a contiguous run.\<close>

fun py_in :: "string \<Rightarrow> string \<Rightarrow> bool" where
  "py_in p [] \<longleftrightarrow> p = []"
| "py_in p (c # cs) \<longleftrightarrow> prefix p (c # cs) \<or> py_in p cs"

text \<open>
  \<open>s.split()\<close> with no argument: the maximal runs of characters that are not whitespace,
  in order; no token is empty, and a text of whitespace only gives the empty list.
\<close>

function py_split :: "string \<Rightarrow> string list" where
  "py_split s =
     (case dropWhile is_space s of
        [] \<Rightarrow> []
      | c # cs \<Rightarrow>
          takeWhile (\<lambda>x. \<not> is_space x) (c # cs) #
          py_split (dropWhile (\<lambda>x. \<not> is_space x) (c # cs)))"
  by pat_completeness auto
termination
proof (relation "measure length")
  show "wf (measure length)"
    by simp
next
  fix s :: string and c cs
  assume "dropWhile is_space s = c # cs"
  then have "length (c # cs) \<le> length s" "\<not> is_space c"
    using length_dropWhile_le [of is_space s] hd_dropWhile [of is_space s] by auto
  moreover have "length (dropWhile (\<lambda>x. \<not> is_space x) cs) \<le> length cs"
    by (rule length_dropWhile_le)
  ultimately show "(dropWhile (\<lambda>x. \<not> is_space x) (c # cs), s) \<in> measure length"
    by simp
qed

declare py_split.simps [simp del]

text \<open>
  \<open>s.find(p, start)\<close>: the lowest index at or after \<open>start\<close> where \<open>p\<close> occurs, and
  \<open>-1\<close> when there is none.
\<close>

fun find_at :: "string \<Rightarrow> string \<Rightarrow> nat option" where
  "find_at p [] = (if p = [] then Some 0 else None)"
| "find_at p (c # cs) =
     (if prefix p (c # cs) then Some 0 else map_option Suc (find_at p cs))"

definition py_find :: "string \<Rightarrow> string \<Rightarrow> nat \<Rightarrow> int" where
  "py_find s p start =
     (if length s < start then - 1
      else case find_at p (drop start s) of
             Some i \<Rightarrow> int (start + i)
           | None \<Rightarrow> - 1)"

text \<open>
  \<open>s[i:j]\<close>: an index below zero counts from the end, and both are clipped to the text.
\<close>

definition clip_index :: "string \<Rightarrow> int \<Rightarrow> nat" where
  "clip_index s i =
     (if i < 0 then nat (max 0 (int (length s) + i)) else min (nat i) (length s))"

definition py_slice :: "string \<Rightarrow> int \<Rightarrow> int \<Rightarrow> string" where
  "py_slice s i j = take (clip_index s j - clip_index s i) (drop (clip_index s i) s)"

text \<open>\<open>s.split(sep)\<close> for a separator of one character: there is always at least one piece.\<close>

fun split_on :: "char \<Rightarrow> string \<Rightarrow> string list" where
  "split_on sep [] = [ [] ]"
| "split_on sep (c # cs) =
     (if c = sep then [] # split_on sep cs
      else (case split_on sep cs of
              piece # pieces \<Rightarrow> (c # piece) # pieces
            | [] \<Rightarrow> [ [c] ]))"

section \<open>The dangerous-query check (database\_manager.py)\<close>

definition dangerous_operations :: "(string \<times> string) list" where
  "dangerous_operations =
     [(''DROP TABLE'', ''This will permanently delete a table and all its data''),
      (''DROP DATABASE'', ''This will permanently delete the entire database''),
      (''DELETE FROM'',
         ''This will delete records (potentially all records if no WHERE clause)''),
      (''TRUNCATE'', ''This will delete all records from a table''),
      (''ALTER TABLE'', ''This will modify table structure'')]"

text \<open>
  The \<open>for operation, warning in dangerous_operations\<close> loop: \<open>continue\<close> is the recursive
  call on the rest of the table, \<open>return True, warning\<close> ends the scan, and falling out
  of the loop returns \<open>(False, "")\<close>.
\<close>

fun scan_operations :: "string \<Rightarrow> (string \<times> string) list \<Rightarrow> bool \<times> string" where
  "scan_operations sql_upper [] = (False, '''')"
| "scan_operations sql_upper ((operation, warning) # rest) =
     (if py_in operation sql_upper then
        (if operation = ''DELETE FROM'' \<and> py_in ''WHERE'' sql_upper
         then scan_operations sql_upper rest
         else (True, warning))
      else scan_operations sql_upper rest)"

definition is_dangerous_query :: "string \<Rightarrow> bool \<times> string" where
  "is_dangerous_query sql = scan_operations (py_strip (py_upper sql)) dangerous_operations"

section \<open>Python values and exceptions\<close>

text \<open>
  The values that reach a result dictionary or a message (floating-point numbers and
  byte strings are left out: no operation of the program looks at them). A \<open>dict\<close> keeps its keys in
  insertion order, so it is an association list; storing under a key that is present
  replaces the value in place, and a new key goes to the end.
\<close>

datatype pyval =
    PyNone
  | PyBool bool
  | PyInt int
  | PyStr string
  | PyList "pyval list"
  | PyDict "(string \<times> pyval) list"

type_synonym pydict = "(string \<times> pyval) list"

fun dict_set :: "pydict \<Rightarrow> string \<Rightarrow> pyval \<Rightarrow> pydict" where
  "dict_set [] k v = [(k, v)]"
| "dict_set ((k', v') # d) k v =
     (if k' = k then (k, v) # d else (k', v') # dict_set d k v)"

fun py_truthy :: "pyval \<Rightarrow> bool" where
  "py_truthy PyNone = False"
| "py_truthy (PyBool b) = b"
| "py_truthy (PyInt n) = (n \<noteq> 0)"
| "py_truthy (PyStr s) = (s \<noteq> [])"
| "py_truthy (PyList xs) = (xs \<noteq> [])"
| "py_truthy (PyDict d) = (d \<noteq> [])"

text \<open>\<open>v == 0\<close>: \<open>False\<close> is the integer zero.\<close>

fun py_is_zero :: "pyval \<Rightarrow> bool" where
  "py_is_zero (PyInt n) = (n = 0)"
| "py_is_zero (PyBool b) = (\<not> b)"
| "py_is_zero _ = False"

text \<open>
  \<open>for x in v\<close>: the elements of a list, the characters of a string, the keys of a
  dictionary; \<open>None\<close> when \<open>v\<close> cannot be iterated.
\<close>

fun py_iter :: "pyval \<Rightarrow> pyval list option" where
  "py_iter (PyList xs) = Some xs"
| "py_iter (PyStr s) = Some (map (\<lambda>c. PyStr [c]) s)"
| "py_iter (PyDict d) = Some (map (\<lambda>(k, v). PyStr k) d)"
| "py_iter _ = None"

text \<open>
  \<open>xs[i]\<close> on a sequence: an index below zero counts from the end; \<open>None\<close> when it is out
  of range.
\<close>

definition py_nth :: "'a list \<Rightarrow> int \<Rightarrow> 'a option" where
  "py_nth xs i =
     (if 0 \<le> i \<and> i < int (length xs) then Some (xs ! nat i)
      else if i < 0 \<and> - int (length xs) \<le> i then Some (xs ! nat (int (length xs) + i))
      else None)"

text \<open>
  \<open>v[k]\<close>: a dictionary is read at a string key, a list or a string at an integer index
  (\<open>True\<close> and \<open>False\<close> are the integers one and zero); \<open>None\<close> when it raises.
\<close>

fun py_subscript :: "pyval \<Rightarrow> pyval \<Rightarrow> pyval option" where
  "py_subscript (PyDict d) (PyStr k) = map_of d k"
| "py_subscript (PyList xs) (PyInt i) = py_nth xs i"
| "py_subscript (PyList xs) (PyBool b) = py_nth xs (if b then 1 else 0)"
| "py_subscript (PyStr s) (PyInt i) = map_option (\<lambda>c. PyStr [c]) (py_nth s i)"
| "py_subscript (PyStr s) (PyBool b) = map_option (\<lambda>c. PyStr [c]) (py_nth s (if b then 1 else 0))"
| "py_subscript _ _ = None"

text \<open>
  \<open>execute_query\<close> has two handlers, \<open>except sqlite3.Error\<close> and \<open>except Exception\<close>; an
  exception is one or the other, and carries the text \<open>str(e)\<close>.
\<close>

datatype py_exception = SqliteError string | OtherException string

section \<open>The database engine\<close>

text \<open>
  \<open>sqlite3\<close> is outside the program. It is a parameter of the model: a state \<open>'db\<close> that
  stands for everything the engine can observe or change (the file, an open transaction),
  and one operation for each call the program makes. Every operation returns the new
  state together with either its value or the exception it raised.

  A cursor carries what the program reads from it: the column names of
  \<open>cursor.description\<close> (\<open>None\<close> when the statement returns no rows), \<open>rowcount\<close> and
  \<open>lastrowid\<close>. A row is an \<open>sqlite3.Row\<close>: its cells in column order, each with the name of
  its column.
\<close>

record cursor =
  description :: "string list option"
  rowcount :: int
  lastrowid :: pyval

type_synonym row = "(string \<times> pyval) list"

record 'db engine =
  connect :: "'db \<Rightarrow> (py_exception + unit) \<times> 'db"
  execute :: "string \<Rightarrow> pyval list option \<Rightarrow> 'db \<Rightarrow> (py_exception + cursor) \<times> 'db"
  fetchall :: "cursor \<Rightarrow> 'db \<Rightarrow> (py_exception + row list) \<times> 'db"
  commit :: "'db \<Rightarrow> (py_exception + unit) \<times> 'db"
  rollback :: "'db \<Rightarrow> 'db"

text \<open>
  \<open>dict(row)\<close> stores \<open>row[k]\<close> under every key \<open>k\<close> of \<open>row.keys()\<close>, in order; \<open>row[k]\<close> is
  the cell of the first column whose name equals \<open>k\<close> up to the case of ASCII letters.
\<close>

definition row_getitem :: "row \<Rightarrow> string \<Rightarrow> pyval option" where
  "row_getitem r k = map_option snd (find (\<lambda>(name, cell). py_lower name = py_lower k) r)"

definition dict_of_row :: "row \<Rightarrow> pydict" where
  "dict_of_row r =
     foldl (\<lambda>d k. case row_getitem r k of Some v \<Rightarrow> dict_set d k v | None \<Rightarrow> d)
       [] (map fst r)"

section \<open>Executing a query (database\_manager.py)\<close>

subsection \<open>The result dictionaries\<close>

definition cancelled_result :: pydict where
  "cancelled_result =
     [(''success'', PyBool False),
      (''error'', PyStr ''Operation cancelled by user''),
      (''cancelled'', PyBool True)]"

definition select_result :: "pydict list \<Rightarrow> string list \<Rightarrow> nat \<Rightarrow> pydict" where
  "select_result data columns row_count =
     [(''success'', PyBool True),
      (''data'', PyList (map PyDict data)),
      (''columns'', PyList (map PyStr columns)),
      (''row_count'', PyInt (int row_count)),
      (''query_type'', PyStr ''SELECT'')]"

definition mutation_result :: "int \<Rightarrow> pyval \<Rightarrow> string \<Rightarrow> pydict" where
  "mutation_result affected_rows last_row_id sql_type =
     [(''success'', PyBool True),
      (''affected_rows'', PyInt affected_rows),
      (''last_row_id'', last_row_id),
      (''query_type'', PyStr sql_type),
      (''message'', PyStr (sql_type @ '' operation completed successfully''))]"

definition unsupported_result :: "string \<Rightarrow> pydict" where
  "unsupported_result sql_type =
     [(''success'', PyBool False),
      (''error'', PyStr (''Unsupported query type: '' @ sql_type))]"

definition database_error_result :: "string \<Rightarrow> string \<Rightarrow> pydict" where
  "database_error_result e sql =
     [(''success'', PyBool False),
      (''error'', PyStr (''Database error: '' @ e)),
      (''sql'', PyStr sql)]"

definition unexpected_error_result :: "string \<Rightarrow> string \<Rightarrow> pydict" where
  "unexpected_error_result e sql =
     [(''success'', PyBool False),
      (''error'', PyStr (''Unexpected error: '' @ e)),
      (''sql'', PyStr sql)]"

text \<open>What the two \<open>except\<close> clauses return for the exception they catch.\<close>

definition except_result :: "py_exception \<Rightarrow> string \<Rightarrow> pydict" where
  "except_result e sql =
     (case e of
        SqliteError text \<Rightarrow> database_error_result text sql
      | OtherException text \<Rightarrow> unexpected_error_result text sql)"

subsection \<open>The query type\<close>

text \<open>
  \<open>sql.strip().upper().split()[0]\<close>. On a text with no token the index raises
  \<open>IndexError\<close>, whose text is \<open>list index out of range\<close>.
\<close>

definition sql_type_of :: "string \<Rightarrow> py_exception + string" where
  "sql_type_of sql =
     (case py_split (py_upper (py_strip sql)) of
        [] \<Rightarrow> Inl (OtherException ''list index out of range'')
      | token # _ \<Rightarrow> Inr token)"

subsection \<open>The body of the \<open>with\<close> block\<close>

text \<open>
  The statement is executed first, with the parameters when \<open>params\<close> is a non-empty
  list; the query type is determined after that, and decides how the result is read.
\<close>

definition bound_params :: "pyval list option \<Rightarrow> pyval list option" where
  "bound_params params = (case params of Some (p # ps) \<Rightarrow> Some (p # ps) | _ \<Rightarrow> None)"

definition connection_body ::
  "'db engine \<Rightarrow> string \<Rightarrow> pyval list option \<Rightarrow> 'db \<Rightarrow> (py_exception + pydict) \<times> 'db" where
  "connection_body E sql params db =
     (case execute E sql (bound_params params) db of
        (Inl e, db1) \<Rightarrow> (Inl e, db1)
      | (Inr cur, db1) \<Rightarrow>
          (case sql_type_of sql of
             Inl e \<Rightarrow> (Inl e, db1)
           | Inr sql_type \<Rightarrow>
               if sql_type \<in> set [''SELECT''] then
                 (case fetchall E cur db1 of
                    (Inl e, db2) \<Rightarrow> (Inl e, db2)
                  | (Inr results, db2) \<Rightarrow>
                      (Inr (select_result (map dict_of_row results)
                              (case description cur of Some names \<Rightarrow> names | None \<Rightarrow> [])
                              (length results)), db2))
               else if sql_type \<in> set [''INSERT'', ''UPDATE'', ''DELETE'', ''CREATE'', ''DROP'', ''ALTER''] then
                 (case commit E db1 of
                    (Inl e, db2) \<Rightarrow> (Inl e, db2)
                  | (Inr _, db2) \<Rightarrow>
                      (Inr (mutation_result (rowcount cur) (lastrowid cur) sql_type), db2))
               else (Inr (unsupported_result sql_type), db1)))"

text \<open>
  \<open>with sqlite3.connect(self.db_path) as conn\<close>: when the body returns, the connection
  commits on the way out, and when that commit raises it rolls back before the exception
  goes on; when the body raises, it rolls back and the exception goes on.
\<close>

definition with_connection ::
  "'db engine \<Rightarrow> string \<Rightarrow> pyval list option \<Rightarrow> 'db \<Rightarrow> (py_exception + pydict) \<times> 'db" where
  "with_connection E sql params db =
     (case connect E db of
        (Inl e, db1) \<Rightarrow> (Inl e, db1)
      | (Inr _, db1) \<Rightarrow>
          (case connection_body E sql params db1 of
             (Inl e, db2) \<Rightarrow> (Inl e, rollback E db2)
           | (Inr result, db2) \<Rightarrow>
               (case commit E db2 of
                  (Inl e, db3) \<Rightarrow> (Inl e, rollback E db3)
                | (Inr _, db3) \<Rightarrow> (Inr result, db3))))"

subsection \<open>\<open>execute_query\<close>\<close>

text \<open>
  The \<open>try\<close> block. \<open>reply\<close> is what \<open>console.input\<close> gives when the prompt is shown: the
  line the user typed, or the exception it raised (end of input).
\<close>

definition try_block ::
  "'db engine \<Rightarrow> py_exception + string \<Rightarrow> string \<Rightarrow> pyval list option \<Rightarrow> 'db
     \<Rightarrow> (py_exception + pydict) \<times> 'db" where
  "try_block E reply sql params db =
     (if fst (is_dangerous_query sql) then
        (case reply of
           Inl e \<Rightarrow> (Inl e, db)
         | Inr response \<Rightarrow>
             if py_lower response \<notin> set [''yes'', ''y''] then (Inr cancelled_result, db)
             else with_connection E sql params db)
      else with_connection E sql params db)"

definition execute_query ::
  "'db engine \<Rightarrow> py_exception + string \<Rightarrow> string \<Rightarrow> pyval list option \<Rightarrow> 'db \<Rightarrow> pydict \<times> 'db" where
  "execute_query E reply sql params db =
     (case try_block E reply sql params db of
        (Inr result, db') \<Rightarrow> (result, db')
      | (Inl e, db') \<Rightarrow> (except_result e sql, db'))"

subsection \<open>\<open>display_results\<close>: which panel a result is shown as\<close>

datatype panel = CancelledNotice | ErrorPanel | NoResultsNotice | ResultsTable | SuccessPanel

text \<open>
  The table is built by reading, for every row of \<open>result["data"]\<close>, the cell \<open>row[col]\<close> of
  every \<open>col\<close> of \<open>result["columns"]\<close>.
\<close>

definition table_cells_readable :: "pyval \<Rightarrow> pyval \<Rightarrow> bool" where
  "table_cells_readable columns data \<longleftrightarrow>
     (case py_iter columns of
        None \<Rightarrow> False
      | Some cols \<Rightarrow>
          (case py_iter data of
             None \<Rightarrow> False
           | Some rows \<Rightarrow>
               list_all (\<lambda>row. list_all (\<lambda>col. py_subscript row col \<noteq> None) cols) rows))"

text \<open>
  \<open>None\<close> is an exception raised on the way: a key the result lacks, a value that cannot
  be iterated, a cell that cannot be read. What the table library does with the headers
  and cells it is given is outside the program.
\<close>

definition display_results :: "pydict \<Rightarrow> panel option" where
  "display_results result =
     (case map_of result ''success'' of
        None \<Rightarrow> None
      | Some success \<Rightarrow>
          if \<not> py_truthy success then
            (if (case map_of result ''cancelled'' of Some c \<Rightarrow> py_truthy c | None \<Rightarrow> False)
             then Some CancelledNotice
             else (case map_of result ''error'' of
                     None \<Rightarrow> None
                   | Some _ \<Rightarrow> Some ErrorPanel))
          else if map_of result ''query_type'' = Some (PyStr ''SELECT'') then
            (case map_of result ''row_count'' of
               None \<Rightarrow> None
             | Some n \<Rightarrow>
                 if py_is_zero n then Some NoResultsNotice
                 else (case map_of result ''columns'' of
                         None \<Rightarrow> None
                       | Some columns \<Rightarrow>
                           (case map_of result ''data'' of
                              None \<Rightarrow> None
                            | Some data \<Rightarrow>
                                if table_cells_readable columns data then Some ResultsTable
                                else None)))
          else Some SuccessPanel)"

text \<open>
  The statement gets past the confirmation: it is not dangerous, or the prompt was answered
  \<open>yes\<close> or \<open>y\<close> in any letter case.
\<close>

definition confirmed :: "string \<Rightarrow> py_exception + string \<Rightarrow> bool" where
  "confirmed sql reply \<longleftrightarrow>
     \<not> fst (is_dangerous_query sql) \<or>
     (case reply of Inr response \<Rightarrow> py_lower response \<in> set [''yes'', ''y''] | Inl _ \<Rightarrow> False)"

subsection \<open>An engine that records its calls\<close>

text \<open>
  For concrete runs: an engine whose state is the list of calls made on it so far, and
  whose four fallible operations have the given outcomes.
\<close>

datatype engine_call =
    Connect
  | Execute string "pyval list option"
  | Fetchall
  | Commit
  | Rollback

definition scripted_engine ::
  "py_exception + unit \<Rightarrow> py_exception + cursor \<Rightarrow> py_exception + row list \<Rightarrow> py_exception + unit
     \<Rightarrow> engine_call list engine" where
  "scripted_engine connected executed fetched committed =
     \<lparr>connect = (\<lambda>calls. (connected, calls @ [Connect])),
      execute = (\<lambda>sql params calls. (executed, calls @ [Execute sql params])),
      fetchall = (\<lambda>cur calls. (fetched, calls @ [Fetchall])),
      commit = (\<lambda>calls. (committed, calls @ [Commit])),
      rollback = (\<lambda>calls. calls @ [Rollback])\<rparr>"

definition recording_engine :: "cursor \<Rightarrow> row list \<Rightarrow> engine_call list engine" where
  "recording_engine cur rows = scripted_engine (Inr ()) (Inr cur) (Inr rows) (Inr ())"

definition no_rows_cursor :: cursor where
  "no_rows_cursor = \<lparr>description = None, rowcount = - 1, lastrowid = PyNone\<rparr>"

section \<open>The translator client (llm\_client.py)\<close>

text \<open>
  A message is the dictionary \<open>{"role": ..., "content": ...}\<close>. The client is the object's
  fields; its methods take it and return it updated.
\<close>

record message =
  role :: string
  content :: pyval

record llm_client =
  base_url :: string
  model :: string
  system_prompt :: string
  conversation_history :: "message list"

text \<open>
  \<open>__init__\<close>: the history starts empty. The system prompt is a fixed text of some forty
  lines in the source; it is a parameter here, as no operation looks into it.
\<close>

definition llm_client_init :: "string \<Rightarrow> string \<Rightarrow> string \<Rightarrow> llm_client" where
  "llm_client_init url_base model_name prompt =
     \<lparr>base_url = url_base, model = model_name, system_prompt = prompt,
      conversation_history = []\<rparr>"

text \<open>A client as the constructor's default arguments make it, for concrete runs.\<close>

definition example_client :: llm_client where
  "example_client =
     llm_client_init ''http://localhost:11434'' ''qwen2.5-coder:7b'' ''You are DatabaseMate AI''"

text \<open>
  The chat service is outside the program: \<open>requests.post\<close> is a parameter, from the request
  to either the exception it raised or the response. A response has a status code and a
  body; \<open>response.json()\<close> raises when the body is not JSON (\<open>None\<close> here).
\<close>

record chat_request =
  url :: string
  json_model :: string
  json_messages :: "message list"
  json_stream :: bool
  timeout :: nat

record http_response =
  status_code :: int
  json_body :: "pyval option"

datatype request_exception = Timeout | OtherFailure

text \<open>\<open>xs[-n:]\<close> for a positive \<open>n\<close>: the last \<open>n\<close> elements, or all of a shorter list.\<close>

definition py_last :: "nat \<Rightarrow> 'a list \<Rightarrow> 'a list" where
  "py_last n xs = drop (length xs - n) xs"

text \<open>\<open>v[k]\<close> for a string key; \<open>None\<close> when it raises (no such key, or not a dictionary).\<close>

fun py_getitem :: "pyval \<Rightarrow> string \<Rightarrow> pyval option" where
  "py_getitem (PyDict d) k = map_of d k"
| "py_getitem _ k = None"

definition build_messages :: "llm_client \<Rightarrow> string \<Rightarrow> bool \<Rightarrow> message list" where
  "build_messages c user_message include_context =
     (if include_context
      then \<lparr>role = ''system'', content = PyStr (system_prompt c)\<rparr> #
           py_last 6 (conversation_history c)
      else []) @
     [\<lparr>role = ''user'', content = PyStr user_message\<rparr>]"

definition chat_request_of :: "llm_client \<Rightarrow> message list \<Rightarrow> chat_request" where
  "chat_request_of c messages =
     \<lparr>url = base_url c @ ''/api/chat'',
      json_model = model c,
      json_messages = messages,
      json_stream = False,
      timeout = 30\<rparr>"

text \<open>
  \<open>response.json()["message"]["content"]\<close>; \<open>None\<close> when one of the three steps raises.
\<close>

definition message_content :: "http_response \<Rightarrow> pyval option" where
  "message_content response =
     (case json_body response of
        None \<Rightarrow> None
      | Some result \<Rightarrow>
          (case py_getitem result ''message'' of
             None \<Rightarrow> None
           | Some msg \<Rightarrow> py_getitem msg ''content''))"

text \<open>
  \<open>query_llm\<close> returns the reply, or \<open>None\<close> on each of its failure paths, and the client.
  The two turns are stored only after the reply text has been read from the body, so an
  exception raised before that leaves the history as it was.
\<close>

definition query_llm ::
  "llm_client \<Rightarrow> (chat_request \<Rightarrow> request_exception + http_response) \<Rightarrow> string \<Rightarrow> bool
     \<Rightarrow> pyval option \<times> llm_client" where
  "query_llm c post user_message include_context =
     (case post (chat_request_of c (build_messages c user_message include_context)) of
        Inl Timeout \<Rightarrow> (None, c)
      | Inl OtherFailure \<Rightarrow> (None, c)
      | Inr response \<Rightarrow>
          if status_code response = 200 then
            (case message_content response of
               None \<Rightarrow> (None, c)
             | Some ai_response \<Rightarrow>
                 (Some ai_response,
                  c\<lparr>conversation_history :=
                       conversation_history c @
                       [\<lparr>role = ''user'', content = PyStr user_message\<rparr>,
                        \<lparr>role = ''assistant'', content = ai_response\<rparr>]\<rparr>))
          else (None, c))"

definition add_table_context :: "llm_client \<Rightarrow> string \<Rightarrow> llm_client" where
  "add_table_context c table_info =
     c\<lparr>conversation_history :=
         conversation_history c @
         [\<lparr>role = ''system'',
           content = PyStr (''Database schema information:'' @ [CHR 0x0A] @ table_info)\<rparr>]\<rparr>"

definition clear_history :: "llm_client \<Rightarrow> llm_client" where
  "clear_history c = c\<lparr>conversation_history := []\<rparr>"

text \<open>The operations that touch the client, and one step of a session.\<close>

datatype client_op =
    QueryLlm "chat_request \<Rightarrow> request_exception + http_response" string bool
  | AddTableContext string
  | ClearHistory

fun client_step :: "client_op \<Rightarrow> llm_client \<Rightarrow> llm_client" where
  "client_step (QueryLlm post user_message include_context) c =
     snd (query_llm c post user_message include_context)"
| "client_step (AddTableContext table_info) c = add_table_context c table_info"
| "client_step ClearHistory c = clear_history c"

subsection \<open>\<open>extract_sql\<close>\<close>

definition sql_keywords :: "string list" where
  "sql_keywords = [''SELECT'', ''INSERT'', ''UPDATE'', ''DELETE'', ''CREATE'', ''DROP'', ''ALTER'']"

text \<open>\<open>s.startswith(t)\<close> for a tuple \<open>t\<close>: one of its members is a prefix of \<open>s\<close>.\<close>

definition starts_with_any :: "string list \<Rightarrow> string \<Rightarrow> bool" where
  "starts_with_any t s \<longleftrightarrow> list_ex (\<lambda>k. prefix k s) t"

text \<open>
  The loop over the lines: each is stripped, and the first stripped line whose upper-case
  form starts with a keyword is returned.
\<close>

fun first_sql_line :: "string list \<Rightarrow> string option" where
  "first_sql_line [] = None"
| "first_sql_line (l # ls) =
     (let line = py_strip l in
      if starts_with_any sql_keywords (py_upper line) then Some line
      else first_sql_line ls)"

definition scan_lines :: "string \<Rightarrow> string" where
  "scan_lines ai_response =
     (case first_sql_line (split_on (CHR 0x0A) ai_response) of
        Some line \<Rightarrow> line
      | None \<Rightarrow> py_strip ai_response)"

definition extract_sql :: "string \<Rightarrow> string" where
  "extract_sql ai_response =
     (if py_in ''```sql'' ai_response then
        (let start = py_find ai_response ''```sql'' 0 + 6;
             end = py_find ai_response ''```'' (nat start)
         in if end \<noteq> - 1 then py_strip (py_slice ai_response start end)
            else scan_lines ai_response)
      else scan_lines ai_response)"

section \<open>Facts about the string operations\<close>

lemma py_in_sublist: "py_in p s \<longleftrightarrow> sublist p s"
  by (induction s) (simp_all add: sublist_Cons_right)

lemma py_in_iff: "py_in p s \<longleftrightarrow> (\<exists>pre post. s = pre @ p @ post)"
  by (simp add: py_in_sublist sublist_def)

lemma py_upper_append: "py_upper (a @ b) = py_upper a @ py_upper b"
  by (simp add: py_upper_def)

lemma is_space_upper_char: "is_space (upper_char c) \<longleftrightarrow> is_space c"
  by (simp add: is_space_def upper_char_def)

lemma dropWhile_space_upper:
  "dropWhile is_space (py_upper s) = py_upper (dropWhile is_space s)"
  by (induction s) (simp_all add: py_upper_def is_space_upper_char)

lemma py_strip_upper: "py_strip (py_upper s) = py_upper (py_strip s)"
  by (simp add: py_strip_def dropWhile_space_upper py_upper_def rev_map
      dropWhile_space_upper [unfolded py_upper_def])

text \<open>
  Stripping removes a prefix and a suffix of whitespace only, so a pattern that neither
  starts nor ends with whitespace occurs in the stripped text exactly when it occurs in
  the text.
\<close>

lemma py_strip_decomp:
  "s = takeWhile is_space s @ py_strip s @ rev (takeWhile is_space (rev (dropWhile is_space s)))"
proof -
  define t where "t = dropWhile is_space s"
  have "py_strip s @ rev (takeWhile is_space (rev t)) =
        rev (takeWhile is_space (rev t) @ dropWhile is_space (rev t))"
    by (simp only: py_strip_def t_def rev_append)
  also have "\<dots> = t"
    by (simp only: takeWhile_dropWhile_id rev_rev_ident)
  finally have "takeWhile is_space s @ py_strip s @ rev (takeWhile is_space (rev t)) =
                takeWhile is_space s @ dropWhile is_space s"
    by (simp only: t_def)
  then show ?thesis
    by (simp only: takeWhile_dropWhile_id t_def)
qed

lemma all_space_takeWhile: "\<forall>c \<in> set (takeWhile is_space s). is_space c"
  by (auto dest: set_takeWhileD)

lemma py_in_all_space_prefix:
  assumes "py_in p (l @ m)" "\<forall>c \<in> set l. is_space c" "p \<noteq> []" "\<not> is_space (hd p)"
  shows "py_in p m"
  using assms
proof (induction l)
  case Nil
  then show ?case by simp
next
  case (Cons a l)
  from Cons.prems(1) have "prefix p (a # l @ m) \<or> py_in p (l @ m)"
    by simp
  moreover have "\<not> prefix p (a # l @ m)"
    using Cons.prems(2,3,4) by (cases p) auto
  ultimately show ?case
    using Cons by simp
qed

lemma py_in_rev: "py_in (rev p) (rev s) \<longleftrightarrow> py_in p s"
proof -
  have "sublist (rev p) (rev s) \<longleftrightarrow> sublist p s"
    by (rule sublist_rev)
  then show ?thesis
    by (simp only: py_in_sublist)
qed

lemma py_in_all_space_suffix:
  assumes "py_in p (m @ r)" "\<forall>c \<in> set r. is_space c" "p \<noteq> []" "\<not> is_space (last p)"
  shows "py_in p m"
proof -
  have "py_in (rev p) (rev (m @ r))"
    using assms(1) by (simp only: py_in_rev)
  then have "py_in (rev p) (rev r @ rev m)"
    by (simp only: rev_append)
  moreover have "\<forall>c \<in> set (rev r). is_space c"
    using assms(2) by (simp only: set_rev)
  moreover have "rev p \<noteq> []"
    using assms(3) by simp
  moreover have "\<not> is_space (hd (rev p))"
    using assms(3,4) by (simp add: hd_rev)
  ultimately have "py_in (rev p) (rev m)"
    by (rule py_in_all_space_prefix)
  then show ?thesis
    by (simp only: py_in_rev)
qed

lemma py_in_strip:
  assumes "p \<noteq> []" "\<not> is_space (hd p)" "\<not> is_space (last p)"
  shows "py_in p (py_strip s) \<longleftrightarrow> py_in p s"
proof
  define l where "l = takeWhile is_space s"
  define r where "r = rev (takeWhile is_space (rev (dropWhile is_space s)))"
  have s: "l @ py_strip s @ r = s"
    unfolding l_def r_def by (rule py_strip_decomp [symmetric])
  assume "py_in p (py_strip s)"
  then obtain a b where "py_strip s = a @ p @ b"
    by (auto simp: py_in_iff)
  then have "(l @ a) @ p @ (b @ r) = l @ py_strip s @ r"
    by simp
  then have "s = (l @ a) @ p @ (b @ r)"
    by (simp only: s)
  then show "py_in p s"
    unfolding py_in_iff by blast
next
  define l where "l = takeWhile is_space s"
  define r where "r = rev (takeWhile is_space (rev (dropWhile is_space s)))"
  have s: "l @ py_strip s @ r = s"
    unfolding l_def r_def by (rule py_strip_decomp [symmetric])
  have l: "\<forall>c \<in> set l. is_space c"
    unfolding l_def by (rule all_space_takeWhile)
  have r: "\<forall>c \<in> set r. is_space c"
    unfolding r_def using all_space_takeWhile [of "rev (dropWhile is_space s)"] by simp
  assume "py_in p s"
  then have "py_in p (l @ (py_strip s @ r))"
    by (simp only: s)
  then have "py_in p (py_strip s @ r)"
    using l assms(1,2) by (rule py_in_all_space_prefix)
  then show "py_in p (py_strip s)"
    using r assms(1,3) by (rule py_in_all_space_suffix)
qed

lemma py_in_any_case:
  "py_upper mid = p \<Longrightarrow> py_in p (py_upper (pre @ mid @ post))"
  by (auto simp: py_in_iff py_upper_append)

subsection \<open>What the scan of the rule table computes\<close>

text \<open>The five patterns and \<open>WHERE\<close> neither start nor end with whitespace.\<close>

lemma pattern_in_strip:
  "py_in ''DROP TABLE'' (py_strip u) \<longleftrightarrow> py_in ''DROP TABLE'' u"
  "py_in ''DROP DATABASE'' (py_strip u) \<longleftrightarrow> py_in ''DROP DATABASE'' u"
  "py_in ''DELETE FROM'' (py_strip u) \<longleftrightarrow> py_in ''DELETE FROM'' u"
  "py_in ''TRUNCATE'' (py_strip u) \<longleftrightarrow> py_in ''TRUNCATE'' u"
  "py_in ''ALTER TABLE'' (py_strip u) \<longleftrightarrow> py_in ''ALTER TABLE'' u"
  "py_in ''WHERE'' (py_strip u) \<longleftrightarrow> py_in ''WHERE'' u"
  by (rule py_in_strip; simp add: is_space_def)+

text \<open>The loop over the table, unrolled: the first rule that applies decides.\<close>

lemma is_dangerous_query_unfold:
  "is_dangerous_query sql =
     (if py_in ''DROP TABLE'' (py_upper sql)
        then (True, ''This will permanently delete a table and all its data'')
      else if py_in ''DROP DATABASE'' (py_upper sql)
        then (True, ''This will permanently delete the entire database'')
      else if py_in ''DELETE FROM'' (py_upper sql) \<and> \<not> py_in ''WHERE'' (py_upper sql)
        then (True, ''This will delete records (potentially all records if no WHERE clause)'')
      else if py_in ''TRUNCATE'' (py_upper sql)
        then (True, ''This will delete all records from a table'')
      else if py_in ''ALTER TABLE'' (py_upper sql)
        then (True, ''This will modify table structure'')
      else (False, ''''))"
  unfolding is_dangerous_query_def dangerous_operations_def
  by (simp only: scan_operations.simps pattern_in_strip) simp

text \<open>Unfolding these evaluates the string operations on a literal.\<close>

lemmas string_eval =
  py_upper_def upper_char_def py_lower_def lower_char_def py_strip_def is_space_def
  py_split.simps

section \<open>The dangerous-query check: claims\<close>

text \<open>
  Claim C3. A statement that contains \<open>DROP TABLE\<close>, \<open>DROP DATABASE\<close>, \<open>TRUNCATE\<close> or
  \<open>ALTER TABLE\<close> in any letter case (it is \<open>pre @ mid @ post\<close> where \<open>mid\<close> in upper case
  is the pattern) is reported dangerous. A statement that matches no rule of the table
  (none of the four patterns in any case, and not \<open>DELETE FROM\<close> without \<open>WHERE\<close>) gets
  \<open>(False, "")\<close>: not dangerous, with the empty rationale.
\<close>

theorem dangerous_patterns_flagged:
  "(sql = pre @ mid @ post \<and>
      py_upper mid \<in> {''DROP TABLE'', ''DROP DATABASE'', ''TRUNCATE'', ''ALTER TABLE''}
      \<longrightarrow> fst (is_dangerous_query sql)) \<and>
   (\<not> py_in ''DROP TABLE'' (py_upper sql) \<and>
    \<not> py_in ''DROP DATABASE'' (py_upper sql) \<and>
    \<not> (py_in ''DELETE FROM'' (py_upper sql) \<and> \<not> py_in ''WHERE'' (py_upper sql)) \<and>
    \<not> py_in ''TRUNCATE'' (py_upper sql) \<and>
    \<not> py_in ''ALTER TABLE'' (py_upper sql)
      \<longrightarrow> is_dangerous_query sql = (False, ''''))"
proof (intro conjI impI)
  assume "sql = pre @ mid @ post \<and>
      py_upper mid \<in> {''DROP TABLE'', ''DROP DATABASE'', ''TRUNCATE'', ''ALTER TABLE''}"
  then have "py_in (py_upper mid) (py_upper sql)"
    and "py_upper mid \<in> {''DROP TABLE'', ''DROP DATABASE'', ''TRUNCATE'', ''ALTER TABLE''}"
    by (simp_all add: py_in_any_case)
  then have "py_in ''DROP TABLE'' (py_upper sql) \<or> py_in ''DROP DATABASE'' (py_upper sql) \<or>
             py_in ''TRUNCATE'' (py_upper sql) \<or> py_in ''ALTER TABLE'' (py_upper sql)"
    by auto
  then show "fst (is_dangerous_query sql)"
    by (auto simp: is_dangerous_query_unfold)
next
  assume "\<not> py_in ''DROP TABLE'' (py_upper sql) \<and>
    \<not> py_in ''DROP DATABASE'' (py_upper sql) \<and>
    \<not> (py_in ''DELETE FROM'' (py_upper sql) \<and> \<not> py_in ''WHERE'' (py_upper sql)) \<and>
    \<not> py_in ''TRUNCATE'' (py_upper sql) \<and>
    \<not> py_in ''ALTER TABLE'' (py_upper sql)"
  then show "is_dangerous_query sql = (False, '''')"
    by (simp add: is_dangerous_query_unfold)
qed

theorem dangerous_patterns_flagged_witness:
  "py_upper ''Drop Table'' = ''DROP TABLE'' \<and>
   fst (is_dangerous_query (''please '' @ ''Drop Table'' @ '' users;'')) \<and>
   is_dangerous_query ''SELECT * FROM users'' = (False, '''')"
proof -
  have u: "py_upper ''Drop Table'' = ''DROP TABLE''"
    by (simp add: string_eval)
  have "fst (is_dangerous_query (''please '' @ ''Drop Table'' @ '' users;''))"
    using dangerous_patterns_flagged
      [of "''please '' @ ''Drop Table'' @ '' users;''" "''please ''" "''Drop Table''" "'' users;''"] u
    by simp
  moreover have "is_dangerous_query ''SELECT * FROM users'' = (False, '''')"
    using dangerous_patterns_flagged [of "''SELECT * FROM users''"]
    by (simp add: string_eval)
  ultimately show ?thesis
    using u by simp
qed

text \<open>
  Claim C4, as stated, fails: a statement of the form \<open>DELETE FROM x WHERE y\<close> is still
  reported dangerous when a later rule of the table matches it. Here the table name
  contains \<open>truncate\<close>; the \<open>DELETE FROM\<close> rule is skipped by \<open>continue\<close> and the scan goes
  on to the \<open>TRUNCATE\<close> rule.
\<close>

theorem delete_where_still_dangerous:
  "is_dangerous_query (''DELETE FROM '' @ ''truncate_log'' @ '' WHERE '' @ ''id = 1'') =
     (True, ''This will delete all records from a table'')"
  by (simp add: is_dangerous_query_def dangerous_operations_def string_eval)

text \<open>
  Claim C4, amended. A statement \<open>DELETE FROM x WHERE y\<close> (both keywords in any letter
  case) that contains none of \<open>DROP TABLE\<close>, \<open>DROP DATABASE\<close>, \<open>TRUNCATE\<close>, \<open>ALTER TABLE\<close>
  in any case is not dangerous, and its rationale is empty. A statement \<open>DELETE FROM x\<close>
  in which \<open>WHERE\<close> occurs nowhere, in any case, is dangerous.
\<close>

theorem delete_where_exempt:
  "(sql = d @ x @ w @ y \<and> py_upper d = ''DELETE FROM'' \<and> py_upper w = ''WHERE'' \<and>
    \<not> py_in ''DROP TABLE'' (py_upper sql) \<and>
    \<not> py_in ''DROP DATABASE'' (py_upper sql) \<and>
    \<not> py_in ''TRUNCATE'' (py_upper sql) \<and>
    \<not> py_in ''ALTER TABLE'' (py_upper sql)
      \<longrightarrow> is_dangerous_query sql = (False, '''')) \<and>
   (sql = d @ x \<and> py_upper d = ''DELETE FROM'' \<and> \<not> py_in ''WHERE'' (py_upper sql)
      \<longrightarrow> fst (is_dangerous_query sql))"
proof (intro conjI impI)
  assume a: "sql = d @ x @ w @ y \<and> py_upper d = ''DELETE FROM'' \<and> py_upper w = ''WHERE'' \<and>
    \<not> py_in ''DROP TABLE'' (py_upper sql) \<and>
    \<not> py_in ''DROP DATABASE'' (py_upper sql) \<and>
    \<not> py_in ''TRUNCATE'' (py_upper sql) \<and>
    \<not> py_in ''ALTER TABLE'' (py_upper sql)"
  then have "py_upper sql = py_upper (d @ x) @ ''WHERE'' @ py_upper y"
    by (simp add: py_upper_append)
  then have "py_in ''WHERE'' (py_upper sql)"
    unfolding py_in_iff by blast
  moreover from a have "\<not> py_in ''DROP TABLE'' (py_upper sql)"
    "\<not> py_in ''DROP DATABASE'' (py_upper sql)"
    "\<not> py_in ''TRUNCATE'' (py_upper sql)"
    "\<not> py_in ''ALTER TABLE'' (py_upper sql)"
    by blast+
  ultimately show "is_dangerous_query sql = (False, '''')"
    by (simp add: is_dangerous_query_unfold)
next
  assume a: "sql = d @ x \<and> py_upper d = ''DELETE FROM'' \<and> \<not> py_in ''WHERE'' (py_upper sql)"
  then have "py_upper sql = [] @ ''DELETE FROM'' @ py_upper x"
    by (simp add: py_upper_append)
  then have "py_in ''DELETE FROM'' (py_upper sql)"
    unfolding py_in_iff by blast
  moreover from a have "\<not> py_in ''WHERE'' (py_upper sql)"
    by blast
  ultimately show "fst (is_dangerous_query sql)"
    by (simp add: is_dangerous_query_unfold)
qed

theorem delete_where_exempt_witness:
  "is_dangerous_query (''delete from'' @ '' users '' @ ''where'' @ '' 1=1'') = (False, '''') \<and>
   fst (is_dangerous_query (''Delete From'' @ '' users''))"
proof -
  have "is_dangerous_query (''delete from'' @ '' users '' @ ''where'' @ '' 1=1'') = (False, '''')"
    using delete_where_exempt
      [of "''delete from'' @ '' users '' @ ''where'' @ '' 1=1''" "''delete from''" "'' users ''"
          "''where''" "'' 1=1''"]
    by (simp add: string_eval)
  moreover have "fst (is_dangerous_query (''Delete From'' @ '' users''))"
    using delete_where_exempt [of "''Delete From'' @ '' users''" "''Delete From''" "'' users''"]
    by (simp add: string_eval)
  ultimately show ?thesis
    by simp
qed

section \<open>Executing a query: facts and claims\<close>

lemmas result_defs =
  cancelled_result_def select_result_def mutation_result_def unsupported_result_def
  database_error_result_def unexpected_error_result_def

lemmas engine_eval =
  execute_query_def try_block_def with_connection_def connection_body_def sql_type_of_def
  bound_params_def scripted_engine_def recording_engine_def no_rows_cursor_def
  is_dangerous_query_def dangerous_operations_def except_result_def

subsection \<open>The query type\<close>

text \<open>
  The query type does not depend on whitespace in front of the statement nor on the case
  of its letters, and it is the first run of characters that are not whitespace, in upper
  case. A statement with no such run has no query type: the index raises.
\<close>

lemma py_strip_leading_space:
  "\<forall>c \<in> set ws. is_space c \<Longrightarrow> py_strip (ws @ s) = py_strip s"
  by (simp add: py_strip_def dropWhile_append2)

lemma sql_type_of_leading_space:
  "\<forall>c \<in> set ws. is_space c \<Longrightarrow> sql_type_of (ws @ sql) = sql_type_of sql"
  by (simp add: sql_type_of_def py_strip_leading_space)

lemma sql_type_of_any_case:
  assumes "py_upper a = py_upper b"
  shows "sql_type_of a = sql_type_of b"
proof -
  have "py_upper (py_strip a) = py_upper (py_strip b)"
    using assms by (simp only: py_strip_upper [symmetric])
  then show ?thesis
    by (simp only: sql_type_of_def)
qed

lemma takeWhile_upper:
  "takeWhile (\<lambda>x. \<not> is_space x) (py_upper s) = py_upper (takeWhile (\<lambda>x. \<not> is_space x) s)"
  by (induction s) (simp_all add: py_upper_def is_space_upper_char)

lemma takeWhile_before_spaces:
  assumes "\<forall>c \<in> set r. is_space c"
  shows "takeWhile (\<lambda>x. \<not> is_space x) (a @ r) = takeWhile (\<lambda>x. \<not> is_space x) a"
proof -
  have "takeWhile (\<lambda>x. \<not> is_space x) r = []"
    using assms by (cases r) simp_all
  then show ?thesis
    by (induction a) simp_all
qed

lemma sql_type_of_first_token:
  "sql_type_of sql =
     (case dropWhile is_space sql of
        [] \<Rightarrow> Inl (OtherException ''list index out of range'')
      | c # cs \<Rightarrow> Inr (py_upper (takeWhile (\<lambda>x. \<not> is_space x) (c # cs))))"
proof (cases "dropWhile is_space sql")
  case Nil
  then have "py_strip sql = []"
    by (simp only: py_strip_def rev.simps dropWhile.simps)
  then have "sql_type_of sql = Inl (OtherException ''list index out of range'')"
    by (simp add: sql_type_of_def py_upper_def py_split.simps)
  then show ?thesis
    by (simp only: Nil list.case)
next
  case (Cons c cs)
  define t where "t = dropWhile is_space sql"
  define r where "r = rev (takeWhile is_space (rev t))"
  have c: "\<not> is_space c"
    using Cons hd_dropWhile [of is_space sql] by auto
  have t: "py_strip sql @ r = t"
  proof -
    have "py_strip sql @ r = rev (takeWhile is_space (rev t) @ dropWhile is_space (rev t))"
      by (simp only: py_strip_def t_def r_def rev_append)
    then show ?thesis
      by (simp only: takeWhile_dropWhile_id rev_rev_ident)
  qed
  have r: "\<forall>x \<in> set r. is_space x"
    unfolding r_def using all_space_takeWhile [of "rev t"] by simp
  have "py_strip sql \<noteq> []"
  proof
    assume "py_strip sql = []"
    with t have "r = c # cs"
      using Cons by (simp add: t_def)
    with r c show False
      by simp
  qed
  then obtain c' cs' where s: "py_strip sql = c' # cs'"
    by (cases "py_strip sql") auto
  with t Cons have "c' = c"
    by (simp add: t_def)
  have tok: "takeWhile (\<lambda>x. \<not> is_space x) (py_strip sql) = takeWhile (\<lambda>x. \<not> is_space x) t"
    using takeWhile_before_spaces [OF r, of "py_strip sql"] by (simp only: t)
  have u: "py_upper (py_strip sql) = upper_char c # py_upper cs'"
    using s \<open>c' = c\<close> by (simp add: py_upper_def)
  have "\<not> is_space (upper_char c)"
    using c by (simp add: is_space_upper_char)
  then have "py_split (py_upper (py_strip sql)) =
      takeWhile (\<lambda>x. \<not> is_space x) (py_upper (py_strip sql)) #
      py_split (dropWhile (\<lambda>x. \<not> is_space x) (py_upper (py_strip sql)))"
    by (subst py_split.simps) (simp add: u)
  then have "sql_type_of sql = Inr (py_upper (takeWhile (\<lambda>x. \<not> is_space x) t))"
    by (simp add: sql_type_of_def takeWhile_upper tok)
  then show ?thesis
    by (simp only: t_def Cons list.case)
qed

subsection \<open>The confirmation and the connection\<close>

lemma try_block_confirmed:
  "confirmed sql reply \<Longrightarrow> try_block E reply sql params db = with_connection E sql params db"
  by (auto simp: confirmed_def try_block_def split: sum.splits)

lemma execute_query_raises:
  "try_block E reply sql params db = (Inl x, db') \<Longrightarrow>
   execute_query E reply sql params db = (except_result x sql, db')"
  by (simp add: execute_query_def)

text \<open>
  A statement whose query type is none of the seven is executed and committed like any
  other; only then is it reported as unsupported.
\<close>

lemma unsupported_reaches_engine:
  assumes "confirmed sql reply"
    and "sql_type_of sql = Inr t"
    and "t \<notin> set [''SELECT'', ''INSERT'', ''UPDATE'', ''DELETE'', ''CREATE'', ''DROP'', ''ALTER'']"
    and "connect E db = (Inr u, db_a)"
    and "execute E sql (bound_params params) db_a = (Inr cur, db_b)"
    and "commit E db_b = (Inr u', db_c)"
  shows "execute_query E reply sql params db = (unsupported_result t, db_c)"
proof -
  have "connection_body E sql params db_a = (Inr (unsupported_result t), db_b)"
    using assms(2,3,5) by (simp add: connection_body_def)
  then have "with_connection E sql params db = (Inr (unsupported_result t), db_c)"
    using assms(4,6) by (simp add: with_connection_def)
  then show ?thesis
    using assms(1) by (simp add: execute_query_def try_block_confirmed)
qed

text \<open>
  Claim C1. The claim says that a statement whose first token is none of the seven
  keywords gets an error result and is never executed against the engine. The run below
  is \<open>execute_query\<close> on a \<open>REPLACE\<close> statement, on the engine that records its calls: the
  result is the error \<open>Unsupported query type: REPLACE\<close>, and the engine has been connected
  to, has executed the statement, and has committed.
\<close>

theorem unsupported_statement_is_executed:
  "execute_query (recording_engine no_rows_cursor []) (Inr ''no'')
     ''REPLACE INTO users (id, name, email) VALUES (1, 'x', 'y')'' None [] =
   (unsupported_result ''REPLACE'',
    [Connect, Execute ''REPLACE INTO users (id, name, email) VALUES (1, 'x', 'y')'' None, Commit])"
  by (simp add: engine_eval string_eval)

text \<open>
  Claim C2. When the statement is dangerous and the reply to the prompt is anything but
  \<open>yes\<close> or \<open>y\<close> (in any letter case), \<open>execute_query\<close> returns the cancelled result and the
  state of the engine is the one it started from, for every engine: no operation of the
  engine is called. The cancelled result is shown as the cancelled notice where the error
  results are shown as the error panel, and it differs from every database error,
  unexpected error, unsupported-type error, row set and mutation summary.
\<close>

theorem declined_confirmation_cancels:
  assumes "fst (is_dangerous_query sql)"
    and "reply = Inr response"
    and "py_lower response \<notin> set [''yes'', ''y'']"
  shows "execute_query E reply sql params db = (cancelled_result, db) \<and>
         display_results cancelled_result = Some CancelledNotice \<and>
         display_results (database_error_result e q) = Some ErrorPanel \<and>
         display_results (unexpected_error_result e q) = Some ErrorPanel \<and>
         display_results (unsupported_result t) = Some ErrorPanel \<and>
         cancelled_result \<noteq> database_error_result e q \<and>
         cancelled_result \<noteq> unexpected_error_result e q \<and>
         cancelled_result \<noteq> unsupported_result t \<and>
         cancelled_result \<noteq> select_result data columns n \<and>
         cancelled_result \<noteq> mutation_result affected last_id t"
proof -
  have "try_block E reply sql params db = (Inr cancelled_result, db)"
    using assms by (simp add: try_block_def)
  then have "execute_query E reply sql params db = (cancelled_result, db)"
    by (simp add: execute_query_def)
  moreover have "display_results cancelled_result = Some CancelledNotice"
    by (simp add: display_results_def cancelled_result_def)
  moreover have "display_results (database_error_result e q) = Some ErrorPanel"
    "display_results (unexpected_error_result e q) = Some ErrorPanel"
    "display_results (unsupported_result t) = Some ErrorPanel"
    by (simp_all add: display_results_def result_defs)
  moreover have "cancelled_result \<noteq> database_error_result e q"
    "cancelled_result \<noteq> unexpected_error_result e q"
    "cancelled_result \<noteq> unsupported_result t"
    "cancelled_result \<noteq> select_result data columns n"
    "cancelled_result \<noteq> mutation_result affected last_id t"
    by (simp_all add: result_defs)
  ultimately show ?thesis
    by simp
qed

theorem declined_confirmation_cancels_witness:
  "fst (is_dangerous_query ''DROP TABLE products'') \<and>
   py_lower ''No'' \<notin> set [''yes'', ''y''] \<and>
   execute_query (recording_engine no_rows_cursor []) (Inr ''No'') ''DROP TABLE products'' None [] =
     (cancelled_result, [])"
proof -
  have d: "fst (is_dangerous_query ''DROP TABLE products'')"
    by (simp add: is_dangerous_query_def dangerous_operations_def string_eval)
  have n: "py_lower ''No'' \<notin> set [''yes'', ''y'']"
    by (simp add: string_eval)
  show ?thesis
    using declined_confirmation_cancels
      [OF d refl n, where E = "recording_engine no_rows_cursor []" and params = None and db = "[]"]
      d n
    by blast
qed

text \<open>
  Claim C5. The claim says that an empty or whitespace-only statement is classified as
  unsupported. It has no first token: \<open>split()[0]\<close> raises \<open>IndexError\<close>, and \<open>execute_query\<close>
  reports \<open>Unexpected error: list index out of range\<close> through its catch-all handler, after
  the engine has executed the statement, instead of \<open>Unsupported query type\<close>.
\<close>

theorem empty_statement_raises:
  "sql_type_of [] = Inl (OtherException ''list index out of range'') \<and>
   sql_type_of ''   '' = Inl (OtherException ''list index out of range'') \<and>
   execute_query (recording_engine no_rows_cursor []) (Inr ''no'') ''   '' None [] =
     (unexpected_error_result ''list index out of range'' ''   '',
      [Connect, Execute ''   '' None, Rollback])"
  by (simp add: engine_eval string_eval)



text \<open>
  Claim C7. Once the statement is past the confirmation, an exception \<open>x\<close> raised by any call
  on the engine (connecting, executing, fetching the rows, the commit of a mutation, the
  commit on leaving the \<open>with\<close> block) is caught: \<open>execute_query\<close> returns the result of the
  handler for \<open>x\<close>. For an \<open>sqlite3.Error\<close> that is the failure that carries the engine's
  message after \<open>Database error:\<close> and the SQL text as given; for any other exception the
  same with \<open>Unexpected error:\<close>.
\<close>

theorem engine_failure_is_returned:
  assumes "confirmed sql reply"
  shows
    "(connect E db = (Inl x, db_a) \<longrightarrow>
        fst (execute_query E reply sql params db) = except_result x sql) \<and>
     (connect E db = (Inr u, db_a) \<and>
      execute E sql (bound_params params) db_a = (Inl x, db_b) \<longrightarrow>
        fst (execute_query E reply sql params db) = except_result x sql) \<and>
     (connect E db = (Inr u, db_a) \<and>
      execute E sql (bound_params params) db_a = (Inr cur, db_b) \<and>
      sql_type_of sql = Inr ''SELECT'' \<and>
      fetchall E cur db_b = (Inl x, db_c) \<longrightarrow>
        fst (execute_query E reply sql params db) = except_result x sql) \<and>
     (connect E db = (Inr u, db_a) \<and>
      execute E sql (bound_params params) db_a = (Inr cur, db_b) \<and>
      sql_type_of sql = Inr t \<and>
      t \<in> set [''INSERT'', ''UPDATE'', ''DELETE'', ''CREATE'', ''DROP'', ''ALTER''] \<and>
      commit E db_b = (Inl x, db_c) \<longrightarrow>
        fst (execute_query E reply sql params db) = except_result x sql) \<and>
     (connect E db = (Inr u, db_a) \<and>
      connection_body E sql params db_a = (Inr result, db_b) \<and>
      commit E db_b = (Inl x, db_c) \<longrightarrow>
        fst (execute_query E reply sql params db) = except_result x sql) \<and>
     except_result (SqliteError m) sql =
       [(''success'', PyBool False),
        (''error'', PyStr (''Database error: '' @ m)),
        (''sql'', PyStr sql)] \<and>
     except_result (OtherException m) sql =
       [(''success'', PyBool False),
        (''error'', PyStr (''Unexpected error: '' @ m)),
        (''sql'', PyStr sql)]"
proof (intro conjI impI)
  assume "connect E db = (Inl x, db_a)"
  then have "with_connection E sql params db = (Inl x, db_a)"
    by (simp add: with_connection_def)
  with assms show "fst (execute_query E reply sql params db) = except_result x sql"
    by (simp add: execute_query_raises try_block_confirmed)
next
  assume "connect E db = (Inr u, db_a) \<and>
      execute E sql (bound_params params) db_a = (Inl x, db_b)"
  then have "with_connection E sql params db = (Inl x, rollback E db_b)"
    by (simp add: with_connection_def connection_body_def)
  with assms show "fst (execute_query E reply sql params db) = except_result x sql"
    by (simp add: execute_query_raises try_block_confirmed)
next
  assume "connect E db = (Inr u, db_a) \<and>
      execute E sql (bound_params params) db_a = (Inr cur, db_b) \<and>
      sql_type_of sql = Inr ''SELECT'' \<and>
      fetchall E cur db_b = (Inl x, db_c)"
  then have "with_connection E sql params db = (Inl x, rollback E db_c)"
    by (simp add: with_connection_def connection_body_def)
  with assms show "fst (execute_query E reply sql params db) = except_result x sql"
    by (simp add: execute_query_raises try_block_confirmed)
next
  assume a: "connect E db = (Inr u, db_a) \<and>
      execute E sql (bound_params params) db_a = (Inr cur, db_b) \<and>
      sql_type_of sql = Inr t \<and>
      t \<in> set [''INSERT'', ''UPDATE'', ''DELETE'', ''CREATE'', ''DROP'', ''ALTER''] \<and>
      commit E db_b = (Inl x, db_c)"
  then have "t \<noteq> ''SELECT''"
    by auto
  with a have "connection_body E sql params db_a = (Inl x, db_c)"
    by (simp add: connection_body_def)
  with a have "with_connection E sql params db = (Inl x, rollback E db_c)"
    by (simp add: with_connection_def)
  with assms show "fst (execute_query E reply sql params db) = except_result x sql"
    by (simp add: execute_query_raises try_block_confirmed)
next
  assume "connect E db = (Inr u, db_a) \<and>
      connection_body E sql params db_a = (Inr result, db_b) \<and>
      commit E db_b = (Inl x, db_c)"
  then have "with_connection E sql params db = (Inl x, rollback E db_c)"
    by (simp add: with_connection_def)
  with assms show "fst (execute_query E reply sql params db) = except_result x sql"
    by (simp add: execute_query_raises try_block_confirmed)
next
  show "except_result (SqliteError m) sql =
       [(''success'', PyBool False),
        (''error'', PyStr (''Database error: '' @ m)),
        (''sql'', PyStr sql)]"
    by (simp add: except_result_def database_error_result_def)
next
  show "except_result (OtherException m) sql =
       [(''success'', PyBool False),
        (''error'', PyStr (''Unexpected error: '' @ m)),
        (''sql'', PyStr sql)]"
    by (simp add: except_result_def unexpected_error_result_def)
qed

theorem engine_failure_is_returned_witness:
  "fst (execute_query
          (scripted_engine (Inl (SqliteError ''unable to open database file''))
             (Inr no_rows_cursor) (Inr []) (Inr ()))
          (Inr ''no'') ''SELECT 1'' None []) =
     database_error_result ''unable to open database file'' ''SELECT 1'' \<and>
   fst (execute_query
          (scripted_engine (Inr ()) (Inl (SqliteError ''UNIQUE constraint failed: users.email''))
             (Inr []) (Inr ()))
          (Inr ''no'') ''INSERT INTO users (email) VALUES (1)'' None []) =
     database_error_result ''UNIQUE constraint failed: users.email''
       ''INSERT INTO users (email) VALUES (1)'' \<and>
   fst (execute_query
          (scripted_engine (Inr ()) (Inr no_rows_cursor)
             (Inl (SqliteError ''database disk image is malformed'')) (Inr ()))
          (Inr ''no'') ''SELECT 1'' None []) =
     database_error_result ''database disk image is malformed'' ''SELECT 1'' \<and>
   fst (execute_query
          (scripted_engine (Inr ()) (Inr no_rows_cursor) (Inr [])
             (Inl (SqliteError ''database is locked'')))
          (Inr ''no'') ''UPDATE users SET age = 1'' None []) =
     database_error_result ''database is locked'' ''UPDATE users SET age = 1'' \<and>
   fst (execute_query
          (scripted_engine (Inr ()) (Inr no_rows_cursor) (Inr [])
             (Inl (SqliteError ''database is locked'')))
          (Inr ''no'') ''SELECT 1'' None []) =
     database_error_result ''database is locked'' ''SELECT 1''"
proof -
  have c: "confirmed ''SELECT 1'' (Inr ''no'')"
    "confirmed ''INSERT INTO users (email) VALUES (1)'' (Inr ''no'')"
    "confirmed ''UPDATE users SET age = 1'' (Inr ''no'')"
    by (simp_all add: confirmed_def is_dangerous_query_def dangerous_operations_def string_eval)
  have t: "sql_type_of ''SELECT 1'' = Inr ''SELECT''"
    "sql_type_of ''UPDATE users SET age = 1'' = Inr ''UPDATE''"
    by (simp_all add: sql_type_of_def string_eval)
  have "fst (execute_query
          (scripted_engine (Inl (SqliteError ''unable to open database file''))
             (Inr no_rows_cursor) (Inr []) (Inr ()))
          (Inr ''no'') ''SELECT 1'' None []) =
     database_error_result ''unable to open database file'' ''SELECT 1''"
    using engine_failure_is_returned
      [OF c(1), where db = "[]" and db_a = "[Connect]" and params = None
         and x = "SqliteError ''unable to open database file''"
         and E = "scripted_engine (Inl (SqliteError ''unable to open database file''))
             (Inr no_rows_cursor) (Inr []) (Inr ())"]
    by (simp add: scripted_engine_def except_result_def)
  moreover have "fst (execute_query
          (scripted_engine (Inr ()) (Inl (SqliteError ''UNIQUE constraint failed: users.email''))
             (Inr []) (Inr ()))
          (Inr ''no'') ''INSERT INTO users (email) VALUES (1)'' None []) =
     database_error_result ''UNIQUE constraint failed: users.email''
       ''INSERT INTO users (email) VALUES (1)''"
    using engine_failure_is_returned
      [OF c(2), where db = "[]" and db_a = "[Connect]" and params = None and u = "()"
         and db_b = "[Connect, Execute ''INSERT INTO users (email) VALUES (1)'' None]"
         and x = "SqliteError ''UNIQUE constraint failed: users.email''"
         and E = "scripted_engine (Inr ())
             (Inl (SqliteError ''UNIQUE constraint failed: users.email'')) (Inr []) (Inr ())"]
    by (simp add: scripted_engine_def bound_params_def except_result_def)
  moreover have "fst (execute_query
          (scripted_engine (Inr ()) (Inr no_rows_cursor)
             (Inl (SqliteError ''database disk image is malformed'')) (Inr ()))
          (Inr ''no'') ''SELECT 1'' None []) =
     database_error_result ''database disk image is malformed'' ''SELECT 1''"
    using engine_failure_is_returned
      [OF c(1), where db = "[]" and db_a = "[Connect]" and params = None and u = "()"
         and db_b = "[Connect, Execute ''SELECT 1'' None]" and cur = no_rows_cursor
         and db_c = "[Connect, Execute ''SELECT 1'' None, Fetchall]"
         and x = "SqliteError ''database disk image is malformed''"
         and E = "scripted_engine (Inr ()) (Inr no_rows_cursor)
             (Inl (SqliteError ''database disk image is malformed'')) (Inr ())"] t(1)
    by (simp add: scripted_engine_def bound_params_def except_result_def)
  moreover have "fst (execute_query
          (scripted_engine (Inr ()) (Inr no_rows_cursor) (Inr [])
             (Inl (SqliteError ''database is locked'')))
          (Inr ''no'') ''UPDATE users SET age = 1'' None []) =
     database_error_result ''database is locked'' ''UPDATE users SET age = 1''"
    using engine_failure_is_returned
      [OF c(3), where db = "[]" and db_a = "[Connect]" and params = None and u = "()"
         and db_b = "[Connect, Execute ''UPDATE users SET age = 1'' None]" and cur = no_rows_cursor
         and db_c = "[Connect, Execute ''UPDATE users SET age = 1'' None, Commit]"
         and t = "''UPDATE''"
         and x = "SqliteError ''database is locked''"
         and E = "scripted_engine (Inr ()) (Inr no_rows_cursor) (Inr [])
             (Inl (SqliteError ''database is locked''))"] t(2)
    by (simp add: scripted_engine_def bound_params_def except_result_def)
  moreover have "fst (execute_query
          (scripted_engine (Inr ()) (Inr no_rows_cursor) (Inr [])
             (Inl (SqliteError ''database is locked'')))
          (Inr ''no'') ''SELECT 1'' None []) =
     database_error_result ''database is locked'' ''SELECT 1''"
    using engine_failure_is_returned
      [OF c(1), where db = "[]" and db_a = "[Connect]" and params = None and u = "()"
         and db_b = "[Connect, Execute ''SELECT 1'' None, Fetchall]"
         and result = "select_result [] [] 0"
         and db_c = "[Connect, Execute ''SELECT 1'' None, Fetchall, Commit]"
         and x = "SqliteError ''database is locked''"
         and E = "scripted_engine (Inr ()) (Inr no_rows_cursor) (Inr [])
             (Inl (SqliteError ''database is locked''))"] t(1)
    by (simp add: scripted_engine_def bound_params_def connection_body_def no_rows_cursor_def
        except_result_def)
  ultimately show ?thesis
    by blast
qed

section \<open>The translator client: facts and claims\<close>

subsection \<open>The conversation history\<close>

lemma py_last_suffix: "suffix (py_last n xs) xs"
  by (simp add: py_last_def suffix_drop)

lemma py_last_length: "length (py_last n xs) = min n (length xs)"
  by (simp add: py_last_def)

lemma query_llm_history:
  "conversation_history (snd (query_llm c post user_message include_context)) =
     conversation_history c \<or>
   (\<exists>ai_response.
      conversation_history (snd (query_llm c post user_message include_context)) =
        conversation_history c @
        [\<lparr>role = ''user'', content = PyStr user_message\<rparr>,
         \<lparr>role = ''assistant'', content = ai_response\<rparr>])"
  by (auto simp: query_llm_def split: sum.splits request_exception.splits option.splits)

lemma client_step_grows:
  "op \<noteq> ClearHistory \<Longrightarrow>
   prefix (conversation_history c) (conversation_history (client_step op c))"
proof (cases op)
  case (QueryLlm post user_message include_context)
  then show ?thesis
    using query_llm_history [of c post user_message include_context] by auto
next
  case (AddTableContext table_info)
  then show ?thesis
    by (simp add: add_table_context_def)
next
  case ClearHistory
  moreover assume "op \<noteq> ClearHistory"
  ultimately show ?thesis
    by simp
qed

text \<open>
  Claim C9. The messages sent with a request are the user message, preceded (when the
  context is included, which is the default) by the system prompt and by the last six
  stored turns, or all of them when fewer are stored; with the context left out no stored
  turn is sent. The request that reaches the service carries exactly these messages. The
  stored history is never cut: after \<open>query_llm\<close> or \<open>add_table_context\<close> the history
  before is a prefix of the history after, and only \<open>clear_history\<close> empties it.
\<close>

theorem history_window_and_growth:
  "(\<exists>recent.
      suffix recent (conversation_history c) \<and>
      length recent = min 6 (length (conversation_history c)) \<and>
      build_messages c user_message include_context =
        (if include_context
         then \<lparr>role = ''system'', content = PyStr (system_prompt c)\<rparr> # recent
         else []) @
        [\<lparr>role = ''user'', content = PyStr user_message\<rparr>]) \<and>
   query_llm c post user_message include_context =
     query_llm c
       (\<lambda>request. if json_messages request = build_messages c user_message include_context
                  then post request else Inl OtherFailure)
       user_message include_context \<and>
   (op \<noteq> ClearHistory \<longrightarrow>
      prefix (conversation_history c) (conversation_history (client_step op c))) \<and>
   conversation_history (client_step ClearHistory c) = []"
proof (intro conjI)
  show "\<exists>recent.
      suffix recent (conversation_history c) \<and>
      length recent = min 6 (length (conversation_history c)) \<and>
      build_messages c user_message include_context =
        (if include_context
         then \<lparr>role = ''system'', content = PyStr (system_prompt c)\<rparr> # recent
         else []) @
        [\<lparr>role = ''user'', content = PyStr user_message\<rparr>]"
    by (rule exI [of _ "py_last 6 (conversation_history c)"])
      (simp add: py_last_suffix py_last_length build_messages_def)
  show "query_llm c post user_message include_context =
     query_llm c
       (\<lambda>request. if json_messages request = build_messages c user_message include_context
                  then post request else Inl OtherFailure)
       user_message include_context"
    by (simp add: query_llm_def chat_request_of_def)
  show "op \<noteq> ClearHistory \<longrightarrow>
      prefix (conversation_history c) (conversation_history (client_step op c))"
    by (simp add: client_step_grows)
  show "conversation_history (client_step ClearHistory c) = []"
    by (simp add: clear_history_def)
qed

theorem history_window_and_growth_witness:
  "AddTableContext ''users(id, name)'' \<noteq> ClearHistory \<and>
   prefix (conversation_history example_client)
     (conversation_history (client_step (AddTableContext ''users(id, name)'') example_client)) \<and>
   conversation_history (client_step ClearHistory example_client) = []"
  using history_window_and_growth
    [of example_client "''show users''" True "\<lambda>request. Inl Timeout"
        "AddTableContext ''users(id, name)''"]
  by simp

text \<open>
  Claim C10. When the request raises (a timeout or any other exception), when the status
  is not 200, and when the status is 200 but the reply text cannot be read from the body,
  \<open>query_llm\<close> returns \<open>None\<close> and the client is unchanged. When the status is 200 and the
  body holds the reply text, it returns that text and the client differs only in its
  history, which has gained two turns at the end: the user message, then the reply.
\<close>

theorem query_llm_frame:
  "(post (chat_request_of c (build_messages c user_message include_context)) = Inl e \<longrightarrow>
      query_llm c post user_message include_context = (None, c)) \<and>
   (post (chat_request_of c (build_messages c user_message include_context)) = Inr response \<and>
    status_code response \<noteq> 200 \<longrightarrow>
      query_llm c post user_message include_context = (None, c)) \<and>
   (post (chat_request_of c (build_messages c user_message include_context)) = Inr response \<and>
    status_code response = 200 \<and> message_content response = None \<longrightarrow>
      query_llm c post user_message include_context = (None, c)) \<and>
   (post (chat_request_of c (build_messages c user_message include_context)) = Inr response \<and>
    status_code response = 200 \<and> message_content response = Some ai_response \<longrightarrow>
      query_llm c post user_message include_context =
        (Some ai_response,
         c\<lparr>conversation_history :=
              conversation_history c @
              [\<lparr>role = ''user'', content = PyStr user_message\<rparr>,
               \<lparr>role = ''assistant'', content = ai_response\<rparr>]\<rparr>))"
  by (cases e) (simp_all add: query_llm_def)

theorem query_llm_frame_witness:
  "query_llm example_client (\<lambda>request. Inl Timeout) ''show users'' True = (None, example_client) \<and>
   query_llm example_client (\<lambda>request. Inr \<lparr>status_code = 500, json_body = None\<rparr>) ''show users'' True =
     (None, example_client) \<and>
   query_llm example_client (\<lambda>request. Inr \<lparr>status_code = 200, json_body = Some (PyDict [])\<rparr>)
     ''show users'' True = (None, example_client) \<and>
   query_llm example_client
     (\<lambda>request. Inr \<lparr>status_code = 200,
        json_body = Some (PyDict [(''message'', PyDict [(''content'', PyStr ''SELECT * FROM users;'')])])\<rparr>)
     ''show users'' True =
     (Some (PyStr ''SELECT * FROM users;''),
      example_client\<lparr>conversation_history :=
           conversation_history example_client @
           [\<lparr>role = ''user'', content = PyStr ''show users''\<rparr>,
            \<lparr>role = ''assistant'', content = PyStr ''SELECT * FROM users;''\<rparr>]\<rparr>)"
proof -
  have "query_llm example_client (\<lambda>request. Inl Timeout) ''show users'' True = (None, example_client)"
    using query_llm_frame [of "\<lambda>request. Inl Timeout" example_client "''show users''" True Timeout]
    by simp
  moreover have "query_llm example_client (\<lambda>request. Inr \<lparr>status_code = 500, json_body = None\<rparr>)
      ''show users'' True = (None, example_client)"
    using query_llm_frame
      [of "\<lambda>request. Inr \<lparr>status_code = 500, json_body = None\<rparr>" example_client "''show users''" True _
          "\<lparr>status_code = 500, json_body = None\<rparr>"]
    by simp
  moreover have "query_llm example_client (\<lambda>request. Inr \<lparr>status_code = 200, json_body = Some (PyDict [])\<rparr>)
     ''show users'' True = (None, example_client)"
    using query_llm_frame
      [of "\<lambda>request. Inr \<lparr>status_code = 200, json_body = Some (PyDict [])\<rparr>" example_client "''show users''" True _
          "\<lparr>status_code = 200, json_body = Some (PyDict [])\<rparr>"]
    by (simp add: message_content_def)
  moreover have "query_llm example_client
     (\<lambda>request. Inr \<lparr>status_code = 200,
        json_body = Some (PyDict [(''message'', PyDict [(''content'', PyStr ''SELECT * FROM users;'')])])\<rparr>)
     ''show users'' True =
     (Some (PyStr ''SELECT * FROM users;''),
      example_client\<lparr>conversation_history :=
           conversation_history example_client @
           [\<lparr>role = ''user'', content = PyStr ''show users''\<rparr>,
            \<lparr>role = ''assistant'', content = PyStr ''SELECT * FROM users;''\<rparr>]\<rparr>)"
    using query_llm_frame
      [of "\<lambda>request. Inr \<lparr>status_code = 200,
        json_body = Some (PyDict [(''message'', PyDict [(''content'', PyStr ''SELECT * FROM users;'')])])\<rparr>"
          example_client "''show users''" True _
          "\<lparr>status_code = 200,
        json_body = Some (PyDict [(''message'', PyDict [(''content'', PyStr ''SELECT * FROM users;'')])])\<rparr>"
          "PyStr ''SELECT * FROM users;''"]
    by (simp add: message_content_def)
  ultimately show ?thesis
    by blast
qed

subsection \<open>Finding the fenced block\<close>

text \<open>
  \<open>find\<close> returns the position of an occurrence that no earlier occurrence precedes, and
  \<open>-1\<close> exactly when the pattern does not occur.
\<close>

lemma find_at_None: "find_at p s = None \<longleftrightarrow> \<not> py_in p s"
  by (induction s) auto

lemma prefix_shorter:
  assumes "prefix p (u @ v)" "length p \<le> length u"
  shows "prefix p u"
  using assms prefix_length_prefix [of p "u @ v" u] by simp

lemma find_at_first:
  assumes "p \<noteq> []" "\<not> py_in p (a @ butlast p)"
  shows "find_at p (a @ p @ b) = Some (length a)"
  using assms(2)
proof (induction a)
  case Nil
  from assms(1) obtain x xs where "p = x # xs"
    by (cases p) auto
  then show ?case
    by simp
next
  case (Cons x a)
  have "\<not> prefix p (x # a @ p @ b)"
  proof
    have "x # a @ p @ b = ((x # a) @ butlast p) @ ([last p] @ b)"
      using append_butlast_last_id [OF assms(1)] by (metis append.assoc append_Cons)
    moreover assume "prefix p (x # a @ p @ b)"
    ultimately have "prefix p (((x # a) @ butlast p) @ ([last p] @ b))"
      by (simp only:)
    moreover have "length p \<le> length ((x # a) @ butlast p)"
      by simp
    ultimately have "prefix p ((x # a) @ butlast p)"
      by (rule prefix_shorter)
    then have "py_in p ((x # a) @ butlast p)"
      by (simp add: py_in_sublist)
    with Cons.prems show False
      by simp
  qed
  moreover have "\<not> py_in p (a @ butlast p)"
    using Cons.prems by simp
  ultimately show ?case
    using Cons.IH by simp
qed

lemma py_find_first:
  assumes "p \<noteq> []" "\<not> py_in p (a @ butlast p)" "start = length pre"
  shows "py_find (pre @ a @ p @ b) p start = int start + int (length a)"
  using find_at_first [OF assms(1,2), of b] assms(3) by (simp add: py_find_def)

lemma py_find_none:
  assumes "\<not> py_in p rest" "start = length pre"
  shows "py_find (pre @ rest) p start = - 1"
proof -
  have "find_at p rest = None"
    using assms(1) by (simp add: find_at_None)
  then show ?thesis
    using assms(2) by (simp add: py_find_def)
qed

lemma py_slice_middle:
  assumes "i = int (length a)" "j = i + int (length m)"
  shows "py_slice (a @ m @ b) i j = m"
  using assms by (simp add: py_slice_def clip_index_def)

lemma first_sql_line_found:
  assumes "\<forall>l' \<in> set before. \<not> starts_with_any sql_keywords (py_upper (py_strip l'))"
    and "starts_with_any sql_keywords (py_upper (py_strip l))"
  shows "first_sql_line (before @ l # after) = Some (py_strip l)"
  using assms by (induction before) (simp_all add: Let_def)

lemma first_sql_line_none:
  "\<forall>l \<in> set ls. \<not> starts_with_any sql_keywords (py_upper (py_strip l)) \<Longrightarrow>
   first_sql_line ls = None"
  by (induction ls) (simp_all add: Let_def)

lemma extract_sql_fenced:
  assumes "\<not> py_in ''```sql'' (pre @ ''```sq'')"
    and "\<not> py_in ''```'' (body @ ''``'')"
  shows "extract_sql (pre @ ''```sql'' @ body @ ''```'' @ post) = py_strip body"
proof -
  define r where "r = pre @ ''```sql'' @ body @ ''```'' @ post"
  have present: "py_in ''```sql'' r"
    unfolding r_def py_in_iff by blast
  have "py_find ([] @ pre @ ''```sql'' @ (body @ ''```'' @ post)) ''```sql'' 0 = int 0 + int (length pre)"
    by (rule py_find_first) (simp_all add: assms(1))
  then have start: "py_find r ''```sql'' 0 = int (length pre)"
    by (simp add: r_def)
  have "py_find ((pre @ ''```sql'') @ body @ ''```'' @ post) ''```'' (length pre + 6) =
        int (length pre + 6) + int (length body)"
    by (rule py_find_first) (simp_all add: assms(2))
  then have stop: "py_find r ''```'' (length pre + 6) = int (length pre + 6) + int (length body)"
    by (simp only: r_def append_assoc)
  have slice: "py_slice r (int (length pre) + 6) (int (length pre + 6) + int (length body)) = body"
  proof -
    have "py_slice ((pre @ ''```sql'') @ body @ (''```'' @ post))
          (int (length pre) + 6) (int (length pre + 6) + int (length body)) = body"
      by (rule py_slice_middle) simp_all
    then show ?thesis
      by (simp only: r_def append_assoc)
  qed
  have n: "nat (int (length pre) + 6) = length pre + 6"
    by simp
  have "extract_sql r =
          (if py_find r ''```'' (length pre + 6) \<noteq> - 1
           then py_strip (py_slice r (int (length pre) + 6) (py_find r ''```'' (length pre + 6)))
           else scan_lines r)"
    using present by (simp only: extract_sql_def Let_def start n if_True)
  then have "extract_sql r = py_strip body"
    by (simp only: stop slice) simp
  then show ?thesis
    by (simp only: r_def)
qed

lemma extract_sql_unclosed:
  assumes "\<not> py_in ''```sql'' (pre @ ''```sq'')"
    and "\<not> py_in ''```'' rest"
  shows "extract_sql (pre @ ''```sql'' @ rest) = scan_lines (pre @ ''```sql'' @ rest)"
proof -
  define r where "r = pre @ ''```sql'' @ rest"
  have "py_find ([] @ pre @ ''```sql'' @ rest) ''```sql'' 0 = int 0 + int (length pre)"
    by (rule py_find_first) (simp_all add: assms(1))
  then have start: "py_find r ''```sql'' 0 = int (length pre)"
    by (simp add: r_def)
  have "py_find ((pre @ ''```sql'') @ rest) ''```'' (length pre + 6) = - 1"
    using assms(2) by (rule py_find_none) simp
  then have stop: "py_find r ''```'' (length pre + 6) = - 1"
    by (simp only: r_def append_assoc)
  have n: "nat (int (length pre) + 6) = length pre + 6"
    by simp
  have "extract_sql r = scan_lines r"
    by (simp only: extract_sql_def Let_def start n stop) simp
  then show ?thesis
    by (simp only: r_def)
qed

text \<open>
  Claim C8, as stated, fails. The fence is found as the text \<open>```sql\<close>, not as a block with
  that tag. A block tagged \<open>sqlite\<close> is no block tagged \<open>sql\<close>, and its one line starts with
  \<open>SELECT\<close>, so the claim gives that line; the code cuts after the first six characters of
  the fence and returns the rest of the tag with the statement. And prose that mentions
  \<open>```sql\<close> before the block is taken for the opening fence: the code returns the prose
  between the mention and the real fence, not the statement of the block.
\<close>

theorem extract_sql_fence_is_text_match:
  "extract_sql (''```sqlite'' @ [CHR 0x0A] @ ''SELECT 1;'' @ [CHR 0x0A] @ ''```'') =
     ''ite'' @ [CHR 0x0A] @ ''SELECT 1;'' \<and>
   first_sql_line
     (split_on (CHR 0x0A) (''```sqlite'' @ [CHR 0x0A] @ ''SELECT 1;'' @ [CHR 0x0A] @ ''```'')) =
     Some ''SELECT 1;'' \<and>
   extract_sql (''I put it in a ```sql block:'' @ [CHR 0x0A] @ ''```sql'' @ [CHR 0x0A] @
                ''SELECT 1;'' @ [CHR 0x0A] @ ''```'') = ''block:''"
  by (simp add: extract_sql_def py_find_def py_slice_def clip_index_def Let_def
      starts_with_any_def sql_keywords_def string_eval)

text \<open>
  Claim C8, amended. The fallback chain of \<open>extract_sql\<close>, in its order.
  \<^enum> The response is \<open>pre\<close>, the text \<open>```sql\<close>, \<open>body\<close>, the text \<open>```\<close>, \<open>post\<close>, where \<open>```sql\<close>
    does not occur earlier in the response, the tag ends there (\<open>body\<close> is empty or starts
    with whitespace) and the closing \<open>```\<close> is the first after the opening: the result is
    \<open>body\<close> stripped, whatever else \<open>pre\<close> and \<open>post\<close> hold.
  \<^enum> Otherwise, when the text \<open>```sql\<close> does not occur in the response, or no \<open>```\<close> follows
    its first occurrence, the result is the first line, stripped, whose stripped upper-case
    form starts with one of the seven keywords.
  \<^enum> Otherwise, when no line does, the result is the whole response stripped.
\<close>

theorem extract_sql_fallback_chain:
  "(r = pre @ ''```sql'' @ body @ ''```'' @ post \<and>
    \<not> py_in ''```sql'' (pre @ ''```sq'') \<and> \<not> py_in ''```'' (body @ ''``'') \<and>
    (body = [] \<or> is_space (hd body))
      \<longrightarrow> extract_sql r = py_strip body) \<and>
   ((\<not> py_in ''```sql'' r \<or>
     (r = pre @ ''```sql'' @ rest \<and>
      \<not> py_in ''```sql'' (pre @ ''```sq'') \<and> \<not> py_in ''```'' rest)) \<and>
    split_on (CHR 0x0A) r = before @ l # after \<and>
    (\<forall>l' \<in> set before. \<not> starts_with_any sql_keywords (py_upper (py_strip l'))) \<and>
    starts_with_any sql_keywords (py_upper (py_strip l))
      \<longrightarrow> extract_sql r = py_strip l) \<and>
   ((\<not> py_in ''```sql'' r \<or>
     (r = pre @ ''```sql'' @ rest \<and>
      \<not> py_in ''```sql'' (pre @ ''```sq'') \<and> \<not> py_in ''```'' rest)) \<and>
    (\<forall>l \<in> set (split_on (CHR 0x0A) r).
       \<not> starts_with_any sql_keywords (py_upper (py_strip l)))
      \<longrightarrow> extract_sql r = py_strip r)"
proof -
  have scan: "extract_sql r = scan_lines r"
    if "\<not> py_in ''```sql'' r \<or>
     (r = pre @ ''```sql'' @ rest \<and>
      \<not> py_in ''```sql'' (pre @ ''```sq'') \<and> \<not> py_in ''```'' rest)"
    using that
  proof
    assume "\<not> py_in ''```sql'' r"
    then show ?thesis
      by (simp add: extract_sql_def)
  next
    assume a: "r = pre @ ''```sql'' @ rest \<and>
      \<not> py_in ''```sql'' (pre @ ''```sq'') \<and> \<not> py_in ''```'' rest"
    then have "extract_sql (pre @ ''```sql'' @ rest) = scan_lines (pre @ ''```sql'' @ rest)"
      by (intro extract_sql_unclosed) blast+
    with a show ?thesis
      by blast
  qed
  show ?thesis
  proof (intro conjI impI)
    assume a: "r = pre @ ''```sql'' @ body @ ''```'' @ post \<and>
      \<not> py_in ''```sql'' (pre @ ''```sq'') \<and> \<not> py_in ''```'' (body @ ''``'') \<and>
      (body = [] \<or> is_space (hd body))"
    then have "extract_sql (pre @ ''```sql'' @ body @ ''```'' @ post) = py_strip body"
      by (intro extract_sql_fenced) blast+
    with a show "extract_sql r = py_strip body"
      by blast
  next
    assume a: "(\<not> py_in ''```sql'' r \<or>
     (r = pre @ ''```sql'' @ rest \<and>
      \<not> py_in ''```sql'' (pre @ ''```sq'') \<and> \<not> py_in ''```'' rest)) \<and>
      split_on (CHR 0x0A) r = before @ l # after \<and>
      (\<forall>l' \<in> set before. \<not> starts_with_any sql_keywords (py_upper (py_strip l'))) \<and>
      starts_with_any sql_keywords (py_upper (py_strip l))"
    then have "first_sql_line (before @ l # after) = Some (py_strip l)"
      by (intro first_sql_line_found) blast+
    moreover from a have "split_on (CHR 0x0A) r = before @ l # after"
      by blast
    ultimately have "scan_lines r = py_strip l"
      by (simp add: scan_lines_def)
    moreover from a have "extract_sql r = scan_lines r"
      by (intro scan) blast
    ultimately show "extract_sql r = py_strip l"
      by simp
  next
    assume a: "(\<not> py_in ''```sql'' r \<or>
     (r = pre @ ''```sql'' @ rest \<and>
      \<not> py_in ''```sql'' (pre @ ''```sq'') \<and> \<not> py_in ''```'' rest)) \<and>
      (\<forall>l \<in> set (split_on (CHR 0x0A) r).
         \<not> starts_with_any sql_keywords (py_upper (py_strip l)))"
    then have "first_sql_line (split_on (CHR 0x0A) r) = None"
      by (intro first_sql_line_none) blast
    then have "scan_lines r = py_strip r"
      by (simp add: scan_lines_def)
    moreover from a have "extract_sql r = scan_lines r"
      by (intro scan) blast
    ultimately show "extract_sql r = py_strip r"
      by simp
  qed
qed

theorem extract_sql_fallback_chain_witness:
  "extract_sql (''Here is the query:'' @ [CHR 0x0A] @ ''```sql'' @
                ([CHR 0x0A] @ ''SELECT * FROM users;'' @ [CHR 0x0A]) @ ''```'' @
                ([CHR 0x0A] @ ''Done.'')) = ''SELECT * FROM users;'' \<and>
   extract_sql (''Sure.'' @ [CHR 0x0A] @ ''  select name from users  '' @ [CHR 0x0A] @ ''ok'') =
     ''select name from users'' \<and>
   extract_sql ''  I cannot help with that.  '' = ''I cannot help with that.''"
proof -
  have "extract_sql (''Here is the query:'' @ [CHR 0x0A] @ ''```sql'' @
                ([CHR 0x0A] @ ''SELECT * FROM users;'' @ [CHR 0x0A]) @ ''```'' @
                ([CHR 0x0A] @ ''Done.'')) = ''SELECT * FROM users;''"
    using extract_sql_fallback_chain
      [of "''Here is the query:'' @ [CHR 0x0A] @ ''```sql'' @
                ([CHR 0x0A] @ ''SELECT * FROM users;'' @ [CHR 0x0A]) @ ''```'' @
                ([CHR 0x0A] @ ''Done.'')"
          "''Here is the query:'' @ [CHR 0x0A]"
          "[CHR 0x0A] @ ''SELECT * FROM users;'' @ [CHR 0x0A]"
          "[CHR 0x0A] @ ''Done.''"]
    by (simp add: py_strip_def is_space_def)
  moreover have "extract_sql (''Sure.'' @ [CHR 0x0A] @ ''  select name from users  '' @ [CHR 0x0A] @ ''ok'') =
     ''select name from users''"
    using extract_sql_fallback_chain
      [of "''Sure.'' @ [CHR 0x0A] @ ''  select name from users  '' @ [CHR 0x0A] @ ''ok''"
          _ _ _ _ "[''Sure.'']" "''  select name from users  ''" "[''ok'']"]
    by (simp add: string_eval starts_with_any_def sql_keywords_def)
  moreover have "extract_sql ''  I cannot help with that.  '' = ''I cannot help with that.''"
    using extract_sql_fallback_chain [of "''  I cannot help with that.  ''"]
    by (simp add: string_eval starts_with_any_def sql_keywords_def)
  ultimately show ?thesis
    by blast
qed

end
